theory Spec2Isabelle
  imports Main "HOL-Library.Word" "HOL-Library.Signed_Division"
begin

section \<open>The amass command-line front end (main.go)\<close>

text \<open>
  A shallow embedding of the result-processing core of \<^verbatim>\<open>main.go\<close>: the rate translator
  \<^verbatim>\<open>freqToDuration\<close>, the statistics update \<^verbatim>\<open>updateData\<close>, the consumer
  \<^verbatim>\<open>manageOutput\<close> with \<^verbatim>\<open>printSummary\<close>, the loaders \<^verbatim>\<open>getFile\<close> and
  \<^verbatim>\<open>getWordlist\<close>, and the goroutines of \<^verbatim>\<open>main\<close> and \<^verbatim>\<open>catchSignals\<close>.
\<close>

subsection \<open>Rate translator: definitions\<close>

text \<open>
  Go's \<^verbatim>\<open>int64\<close> and \<^verbatim>\<open>time.Duration\<close> (an \<^verbatim>\<open>int64\<close> of nanoseconds) are 64-bit
  words read as two's complement. Go's integer division truncates towards zero and panics
  on a zero divisor; multiplication wraps.
\<close>

type_synonym int64 = "64 word"

datatype go_panic = DivideByZero

definition int64_div :: "int64 \<Rightarrow> int64 \<Rightarrow> go_panic + int64" where
  "int64_div a b =
     (if b = 0 then Inl DivideByZero
      else Inr (word_of_int (sint a sdiv sint b)))"

definition Second :: int64 where
  "Second = 1000000000"

definition Millisecond :: int64 where
  "Millisecond = 1000000"

text \<open>
  \<^verbatim>\<open>freqToDuration\<close>, lines 295 to 312. The engine's default,
  \<^verbatim>\<open>amass.DefaultConfig().Frequency\<close>, belongs to the engine package and is the parameter
  \<open>DefaultFrequency\<close>. The variable \<^verbatim>\<open>d\<close> is reassigned by \<^verbatim>\<open>d = d / 60\<close>; the model
  calls the new value \<open>d'\<close>.
\<close>

definition freqToDuration :: "int64 \<Rightarrow> int64 \<Rightarrow> go_panic + int64" where
  "freqToDuration DefaultFrequency freq =
     (if 0 <s freq then
        (let d = freq in
         if d <s 60 then
           (case int64_div 60 d of
              Inl e \<Rightarrow> Inl e
            | Inr q \<Rightarrow> Inr (q * Second))
         else
           (case int64_div d 60 of
              Inl e \<Rightarrow> Inl e
            | Inr d' \<Rightarrow>
                (case int64_div 1000 d' of
                   Inl e \<Rightarrow> Inl e
                 | Inr m \<Rightarrow>
                     if d' <s 1000 \<and> 1 <s m then Inr (m * Millisecond)
                     else Inr DefaultFrequency)))
      else Inr DefaultFrequency)"

subsection \<open>Discovery events and aggregate statistics: definitions\<close>

text \<open>
  \<^verbatim>\<open>asnData\<close> is declared at lines 139 to 142. \<^verbatim>\<open>amass.AmassRequest\<close> is declared in
  the engine package; the record below has the fields that \<^verbatim>\<open>main.go\<close> reads.
  \<open>Netblock\<close> holds the text that \<^verbatim>\<open>req.Netblock.String()\<close> returns. The channels of
  \<^verbatim>\<open>outputParams\<close> are part of the state of the running program further below.
\<close>

record asnData =
  Name :: string
  Netblocks :: "string \<rightharpoonup> int"

record AmassRequest =
  Name :: string
  Address :: string
  Source :: string
  Tag :: string
  ASN :: int
  ISP :: string
  Netblock :: string

record outputParams =
  Verbose :: bool
  Sources :: bool
  PrintIPs :: bool
  FileOut :: string

text \<open>
  \<^verbatim>\<open>m[k]++\<close> on a Go map: a missing key reads as 0. The counters are Go \<^verbatim>\<open>int\<close>s
  (64 bits); they count events of one run and are modelled as unbounded integers.
\<close>

definition incr :: "('k \<rightharpoonup> int) \<Rightarrow> 'k \<Rightarrow> ('k \<rightharpoonup> int)" where
  "incr m k = m(k \<mapsto> (case m k of None \<Rightarrow> 0 | Some v \<Rightarrow> v) + 1)"

text \<open>
  \<^verbatim>\<open>updateData\<close>, lines 186 to 200. The maps are mutated in place in the source; the
  model returns the new maps. Every entry of \<^verbatim>\<open>asns\<close> points to a record of its own,
  so the update through the pointer \<^verbatim>\<open>data\<close> is an update of that entry.
\<close>

definition updateData ::
  "AmassRequest \<Rightarrow> (string \<rightharpoonup> int) \<Rightarrow> (int \<rightharpoonup> asnData)
     \<Rightarrow> (string \<rightharpoonup> int) \<times> (int \<rightharpoonup> asnData)" where
  "updateData req tags0 asns0 =
     (let tags1 = incr tags0 (Tag req);
          data = (case asns0 (ASN req) of
                    None \<Rightarrow> \<lparr>asnData.Name = ISP req, Netblocks = Map.empty\<rparr>
                  | Some found \<Rightarrow> found)
      in (tags1, asns0(ASN req \<mapsto> data\<lparr>Netblocks := incr (Netblocks data) (Netblock req)\<rparr>)))"

subsection \<open>Formatting: definitions\<close>

text \<open>
  \<^verbatim>\<open>fmt.Sprintf("%-14s", s)\<close> writes \<^verbatim>\<open>s\<close> and pads it on the right with spaces up
  to a width of 14, the width being counted in runes by \<^verbatim>\<open>utf8.RuneCountInString\<close>.
  Strings are byte sequences. \<open>rune_width c cs\<close> is the number of bytes the decoder
  consumes for the rune that starts with byte \<open>c\<close> and is followed by \<open>cs\<close>: an invalid
  or truncated encoding counts as one rune of one byte.
\<close>

definition first_size :: "nat \<Rightarrow> nat" where
  "first_size c =
     (if c < 0xC2 then 0 else if c < 0xE0 then 2 else if c < 0xF0 then 3
      else if c < 0xF5 then 4 else 0)"

definition accept_lo :: "nat \<Rightarrow> nat" where
  "accept_lo c = (if c = 0xE0 then 0xA0 else if c = 0xF0 then 0x90 else 0x80)"

definition accept_hi :: "nat \<Rightarrow> nat" where
  "accept_hi c = (if c = 0xED then 0x9F else if c = 0xF4 then 0x8F else 0xBF)"

definition rune_width :: "nat \<Rightarrow> nat list \<Rightarrow> nat" where
  "rune_width c cs =
     (if c < 0x80 then 1
      else let size = first_size c in
        if size = 0 then 1
        else if Suc (length cs) < size then 1
        else if cs ! 0 < accept_lo c \<or> accept_hi c < cs ! 0 then 1
        else if size = 2 then 2
        else if cs ! 1 < 0x80 \<or> 0xBF < cs ! 1 then 1
        else if size = 3 then 3
        else if cs ! 2 < 0x80 \<or> 0xBF < cs ! 2 then 1
        else 4)"

function RuneCount :: "nat list \<Rightarrow> nat" where
  "RuneCount [] = 0"
| "RuneCount (c # cs) = Suc (RuneCount (drop (rune_width c cs - 1) cs))"
  by pat_completeness auto
termination by (relation "measure length") auto

definition RuneCountInString :: "string \<Rightarrow> nat" where
  "RuneCountInString s = RuneCount (map of_char s)"

definition pad_right :: "nat \<Rightarrow> string \<Rightarrow> string" where
  "pad_right wid s = s @ replicate (wid - RuneCountInString s) CHR '' ''"

text \<open>The line built at lines 157 to 165 of \<^verbatim>\<open>manageOutput\<close>.\<close>

definition format_line :: "outputParams \<Rightarrow> AmassRequest \<Rightarrow> string" where
  "format_line params result =
     (let line = [];
          line = (if Sources params
                  then line @ pad_right 14 (''['' @ Source result @ ''] '')
                  else line);
          line = (if PrintIPs params
                  then line @ (AmassRequest.Name result @ '','' @ Address result) @ ''\<newline>''
                  else line @ AmassRequest.Name result @ ''\<newline>'')
      in line)"

text \<open>\<^verbatim>\<open>%d\<close> and \<^verbatim>\<open>strconv.Itoa\<close>: the decimal digits, with a minus sign below zero.\<close>

function digits :: "nat \<Rightarrow> string" where
  "digits n =
     (if n < 10 then [''0123456789'' ! n]
      else digits (n div 10) @ [''0123456789'' ! (n mod 10)])"
  by pat_completeness auto
termination by (relation "measure id") auto

declare digits.simps [simp del]

definition Itoa :: "int \<Rightarrow> string" where
  "Itoa i = (if i < 0 then ''-'' @ digits (nat (- i)) else digits (nat i))"

subsection \<open>The consumer manageOutput: definitions\<close>

text \<open>
  The local variables of \<^verbatim>\<open>manageOutput\<close> (lines 145 to 149), and what the function
  acts on outside the program: the text printed on standard output, the files, the paths
  that cannot be opened for writing, and the calls of \<^verbatim>\<open>ioutil.WriteFile\<close> made so far.
\<close>

record output_state =
  total :: int
  allLines :: string
  tags :: "string \<rightharpoonup> int"
  asns :: "int \<rightharpoonup> asnData"

record world =
  stdout :: string
  files :: "string \<rightharpoonup> string"
  unwritable :: "string list"
  writes :: "(string \<times> string) list"

definition initial_state :: output_state where
  "initial_state = \<lparr>total = 0, allLines = [], tags = Map.empty, asns = Map.empty\<rparr>"

text \<open>The case \<^verbatim>\<open>result := <-params.Results\<close> of the select statement, lines 153 to 169.\<close>

definition receive_result ::
  "outputParams \<Rightarrow> AmassRequest \<Rightarrow> output_state \<times> world \<Rightarrow> output_state \<times> world" where
  "receive_result params result sw =
     (let st = fst sw; w = snd sw;
          total' = total st + 1;
          upd = updateData result (tags st) (asns st);
          line = format_line params result
      in (\<lparr>total = total', allLines = allLines st @ line, tags = fst upd, asns = snd upd\<rparr>,
          w\<lparr>stdout := stdout w @ line\<rparr>))"

text \<open>
  The loop of lines 150 to 173, for the sequence of values that the select statement
  receives from \<^verbatim>\<open>Results\<close> before it receives from \<^verbatim>\<open>Finish\<close>.
\<close>

fun output_loop ::
  "outputParams \<Rightarrow> AmassRequest list \<Rightarrow> output_state \<times> world \<Rightarrow> output_state \<times> world" where
  "output_loop params [] sw = sw"
| "output_loop params (result # rest) sw =
     output_loop params rest (receive_result params result sw)"

text \<open>
  \<^verbatim>\<open>printSummary\<close>, lines 202 to 236, as the text it prints. Go visits the entries of a
  map in an order of the runtime's choosing: the function takes each map as the list of
  its entries in the order of the visit. \<open>print_tags\<close> is the loop of lines 207 to 212;
  \<^verbatim>\<open>num\<close> and \<^verbatim>\<open>length\<close> are set at line 206 and the loop assigns to neither.
\<close>

fun print_tags :: "int \<Rightarrow> int \<Rightarrow> (string \<times> int) list \<Rightarrow> string" where
  "print_tags num len [] = []"
| "print_tags num len ((k, v) # rest) =
     (k @ '': '' @ Itoa v) @ (if num < len then '', '' else []) @ print_tags num len rest"

fun print_line :: "nat \<Rightarrow> string" where
  "print_line 0 = []"
| "print_line (Suc i) = ''----------'' @ print_line i"

fun print_netblocks :: "(string \<times> int) list \<Rightarrow> string" where
  "print_netblocks [] = []"
| "print_netblocks ((cidr, ips) # rest) =
     (let s = Itoa ips in
        [CHR 0x09] @ pad_right 18 cidr @ [CHR 0x09] @ pad_right 3 s @ '' ''
        @ (if ips = 1 then ''IP address\<newline>'' else ''IP addresses\<newline>''))
     @ print_netblocks rest"

fun print_asns :: "(int \<times> string \<times> (string \<times> int) list) list \<Rightarrow> string" where
  "print_asns [] = []"
| "print_asns ((asn, name, netblocks) # rest) =
     (''ASN: '' @ Itoa asn @ '' - '' @ name @ ''\<newline>'') @ print_netblocks netblocks
     @ print_asns rest"

definition printSummary ::
  "int \<Rightarrow> (string \<times> int) list \<Rightarrow> (int \<times> string \<times> (string \<times> int) list) list \<Rightarrow> string" where
  "printSummary total0 tags0 asns0 =
     (''\<newline>'' @ Itoa total0 @ '' names discovered - '')
     @ (let num = 1; len = int (length tags0) in print_tags num len tags0)
     @ ''\<newline>''
     @ print_line 8
     @ ''\<newline>''
     @ print_asns asns0"

text \<open>The order in which the runtime visits the entries of the two maps.\<close>

record runtime =
  range_tags :: "(string \<rightharpoonup> int) \<Rightarrow> (string \<times> int) list"
  range_asns :: "(int \<rightharpoonup> asnData) \<Rightarrow> (int \<times> string \<times> (string \<times> int) list) list"

text \<open>
  \<^verbatim>\<open>ioutil.WriteFile\<close> replaces the content of the file, or returns an error when the
  file cannot be opened for writing.
\<close>

definition WriteFile :: "string \<Rightarrow> string \<Rightarrow> world \<Rightarrow> string option \<times> world" where
  "WriteFile filename data w =
     (let w' = w\<lparr>writes := writes w @ [(filename, data)]\<rparr> in
      if filename \<in> set (unwritable w)
      then (Some (''open '' @ filename @ '': permission denied''), w')
      else (None, w'\<lparr>files := (files w)(filename \<mapsto> data)\<rparr>))"

text \<open>
  Lines 174 to 183: the summary, the file, and \<^verbatim>\<open>close(params.Done)\<close>. The value that
  \<^verbatim>\<open>WriteFile\<close> returns is dropped, as at line 180. The second component of the result
  tells that \<^verbatim>\<open>Done\<close> is closed.
\<close>

definition output_finish ::
  "runtime \<Rightarrow> outputParams \<Rightarrow> output_state \<times> world \<Rightarrow> world \<times> bool" where
  "output_finish rt params sw =
     (let st = fst sw; w = snd sw;
          w = (if Verbose params
               then w\<lparr>stdout := stdout w
                      @ printSummary (total st) (range_tags rt (tags st)) (range_asns rt (asns st))\<rparr>
               else w);
          w = (if FileOut params \<noteq> []
               then snd (WriteFile (FileOut params) (allLines st) w)
               else w)
      in (w, True))"

definition manageOutput ::
  "runtime \<Rightarrow> outputParams \<Rightarrow> AmassRequest list \<Rightarrow> world \<Rightarrow> world \<times> bool" where
  "manageOutput rt params received w =
     output_finish rt params (output_loop params received (initial_state, w))"

subsection \<open>The loaders getFile and getWordlist: definitions\<close>





subsection \<open>The goroutines of main, manageOutput and catchSignals: definitions\<close>

text \<open>
  The running program from line 114 on, as a transition system. \<^verbatim>\<open>Results\<close> is a
  buffered channel of capacity 100, \<^verbatim>\<open>Finish\<close> is unbuffered (a send on it completes
  only together with a receive), \<^verbatim>\<open>Done\<close> is closed once. The engine is outside the
  program: \<open>engine\<close> is the list of requests that \<^verbatim>\<open>amass.StartAmass\<close> will still send
  before it returns. A location tells which statement a goroutine executes next:
  \<^verbatim>\<open>main\<close> at lines 126, 135, 136 and after; \<^verbatim>\<open>catchSignals\<close> at lines 244, 246, 248
  and 249; \<^verbatim>\<open>manageOutput\<close> at the select statement, at line 175, and after line 183.
\<close>

datatype main_loc = StartAmass | SendFinish | WaitDone | MainReturned

datatype sig_loc = WaitSignal | SigSendFinish | SigWaitDone | SigExit

datatype out_loc = Select | AfterLoop | OutReturned

record system =
  Results :: "AmassRequest list"
  Done :: bool
  engine :: "AmassRequest list"
  main_at :: main_loc
  sig_at :: sig_loc
  out_at :: out_loc
  out_state :: output_state
  env :: world
  exited :: bool

text \<open>
  The steps. \<open>EngineSend\<close>: the engine sends its next request on \<^verbatim>\<open>Results\<close>.
  \<open>EngineReturn\<close>: \<^verbatim>\<open>StartAmass\<close> returns. \<open>Interrupt\<close>: a signal arrives on
  \<^verbatim>\<open>sigs\<close>. \<open>RecvResult\<close>: the select statement takes the case of \<^verbatim>\<open>Results\<close>.
  \<open>RecvFinishMain\<close> and \<open>RecvFinishSig\<close>: it takes the case of \<^verbatim>\<open>Finish\<close>, together
  with the send of \<^verbatim>\<open>main\<close> (line 135) or of \<^verbatim>\<open>catchSignals\<close> (line 246). When several
  cases of a select statement can proceed, Go takes any one of them. \<open>Finalize\<close>: lines
  175 to 183. \<open>MainDone\<close>: \<^verbatim>\<open>main\<close> receives from \<^verbatim>\<open>Done\<close> and returns. \<open>SigDone\<close>:
  \<^verbatim>\<open>catchSignals\<close> receives from \<^verbatim>\<open>Done\<close> and calls \<^verbatim>\<open>os.Exit\<close>.
\<close>

datatype action =
    EngineSend
  | EngineReturn
  | Interrupt
  | RecvResult
  | RecvFinishMain
  | RecvFinishSig
  | Finalize
  | MainDone
  | SigDone

definition start :: "AmassRequest list \<Rightarrow> world \<Rightarrow> system" where
  "start evs w =
     \<lparr>Results = [], Done = False, engine = evs, main_at = StartAmass, sig_at = WaitSignal,
      out_at = Select, out_state = initial_state, env = w, exited = False\<rparr>"

fun step :: "runtime \<Rightarrow> outputParams \<Rightarrow> action \<Rightarrow> system \<Rightarrow> system option" where
  "step rt params EngineSend s =
     (case engine s of
        [] \<Rightarrow> None
      | e # es \<Rightarrow>
          if \<not> exited s \<and> main_at s = StartAmass \<and> length (Results s) < 100
          then Some (s\<lparr>Results := Results s @ [e], engine := es\<rparr>)
          else None)"
| "step rt params EngineReturn s =
     (if \<not> exited s \<and> main_at s = StartAmass \<and> engine s = []
      then Some (s\<lparr>main_at := SendFinish\<rparr>)
      else None)"
| "step rt params Interrupt s =
     (if \<not> exited s \<and> sig_at s = WaitSignal
      then Some (s\<lparr>sig_at := SigSendFinish\<rparr>)
      else None)"
| "step rt params RecvResult s =
     (case Results s of
        [] \<Rightarrow> None
      | result # queued \<Rightarrow>
          if \<not> exited s \<and> out_at s = Select
          then (let sw = receive_result params result (out_state s, env s)
                in Some (s\<lparr>Results := queued, out_state := fst sw, env := snd sw\<rparr>))
          else None)"
| "step rt params RecvFinishMain s =
     (if \<not> exited s \<and> out_at s = Select \<and> main_at s = SendFinish
      then Some (s\<lparr>main_at := WaitDone, out_at := AfterLoop\<rparr>)
      else None)"
| "step rt params RecvFinishSig s =
     (if \<not> exited s \<and> out_at s = Select \<and> sig_at s = SigSendFinish
      then Some (s\<lparr>sig_at := SigWaitDone, out_at := AfterLoop\<rparr>)
      else None)"
| "step rt params Finalize s =
     (if \<not> exited s \<and> out_at s = AfterLoop
      then (let fin = output_finish rt params (out_state s, env s)
            in Some (s\<lparr>env := fst fin, Done := snd fin, out_at := OutReturned\<rparr>))
      else None)"
| "step rt params MainDone s =
     (if \<not> exited s \<and> main_at s = WaitDone \<and> Done s
      then Some (s\<lparr>main_at := MainReturned, exited := True\<rparr>)
      else None)"
| "step rt params SigDone s =
     (if \<not> exited s \<and> sig_at s = SigWaitDone \<and> Done s
      then Some (s\<lparr>sig_at := SigExit, exited := True\<rparr>)
      else None)"

text \<open>A run follows a schedule of steps; it is \<open>None\<close> when a step cannot be taken.\<close>

fun run :: "runtime \<Rightarrow> outputParams \<Rightarrow> action list \<Rightarrow> system \<Rightarrow> system option" where
  "run rt params [] s = Some s"
| "run rt params (a # acts) s =
     (case step rt params a s of
        None \<Rightarrow> None
      | Some s' \<Rightarrow> run rt params acts s')"

text \<open>A send on \<^verbatim>\<open>Finish\<close> has completed when its goroutine is past the send.\<close>

definition main_fired :: "system \<Rightarrow> bool" where
  "main_fired s = (main_at s = WaitDone \<or> main_at s = MainReturned)"

definition sig_fired :: "system \<Rightarrow> bool" where
  "sig_fired s = (sig_at s = SigWaitDone \<or> sig_at s = SigExit)"

definition fin_inv :: "world \<Rightarrow> system \<Rightarrow> bool" where
  "fin_inv w s =
     ((if out_at s = Select then \<not> main_fired s \<and> \<not> sig_fired s
       else main_fired s \<noteq> sig_fired s)
      \<and> Done s = (out_at s = OutReturned)
      \<and> (if out_at s = OutReturned then length (writes (env s)) \<le> Suc (length (writes w))
         else writes (env s) = writes w))"

subsection \<open>Sample inputs\<close>

text \<open>
  Three events from sources A, A and B, the first two in ASN 100 and the same netblock
  (the second with another ISP name), the third in ASN 200.
\<close>

definition ev1 :: AmassRequest where
  "ev1 = \<lparr>Name = ''www.example.com'', Address = ''10.0.0.1'', Source = ''Bing'', Tag = ''A'',
          ASN = 100, ISP = ''First ISP'', Netblock = ''10.0.0.0/24''\<rparr>"

definition ev2 :: AmassRequest where
  "ev2 = \<lparr>Name = ''mail.example.com'', Address = ''10.0.0.2'', Source = ''Bing'', Tag = ''A'',
          ASN = 100, ISP = ''Renamed ISP'', Netblock = ''10.0.0.0/24''\<rparr>"

definition ev3 :: AmassRequest where
  "ev3 = \<lparr>Name = ''ns.example.com'', Address = ''172.16.0.9'', Source = ''Forward DNS'', Tag = ''B'',
          ASN = 200, ISP = ''Other ISP'', Netblock = ''172.16.0.0/16''\<rparr>"

definition quiet :: outputParams where
  "quiet = \<lparr>Verbose = False, Sources = False, PrintIPs = False, FileOut = []\<rparr>"

definition to_file :: outputParams where
  "to_file = \<lparr>Verbose = False, Sources = True, PrintIPs = True, FileOut = ''out.txt''\<rparr>"

definition no_range :: runtime where
  "no_range = \<lparr>range_tags = (\<lambda>m. []), range_asns = (\<lambda>m. [])\<rparr>"

definition empty_world :: world where
  "empty_world = \<lparr>stdout = [], files = Map.empty, unwritable = [], writes = []\<rparr>"

definition locked_world :: world where
  "locked_world = \<lparr>stdout = [], files = Map.empty, unwritable = [''out.txt''], writes = []\<rparr>"

section \<open>Properties\<close>

subsection \<open>Rate translator\<close>

lemma sint_int64_of_int:
  assumes "- (2 ^ 63) \<le> k" "k < 2 ^ 63"
  shows "sint (word_of_int k :: int64) = k"
  using assms by (simp add: sint_sbintrunc' signed_take_bit_int_eq_self)

lemma int64_div_pos:
  assumes "0 < sint a" "0 < sint b"
  shows "\<exists>q. int64_div a b = Inr q \<and> sint q = sint a div sint b"
proof -
  have b0: "b \<noteq> 0" using assms(2) by auto
  have sd: "sint a sdiv sint b = sint a div sint b"
    using assms by (simp add: signed_divide_int_def)
  have lo: "0 \<le> sint a div sint b"
    using assms by (simp add: pos_imp_zdiv_nonneg_iff)
  have "sint a div sint b \<le> sint a div 1"
    using assms by (intro zdiv_mono2) auto
  then have "sint a div sint b \<le> sint a" by simp
  moreover have "sint a < 2 ^ 63"
    using sint_lt [of a] by simp
  ultimately have hi: "sint a div sint b < 2 ^ 63" by linarith
  have "sint (word_of_int (sint a div sint b) :: int64) = sint a div sint b"
    using lo hi by (intro sint_int64_of_int) auto
  then show ?thesis using b0 sd by (simp add: int64_div_def)
qed

lemma sint_mult_small:
  fixes q c :: int64
  assumes "0 \<le> sint q" "sint q \<le> 1000" "0 \<le> sint c" "sint c \<le> 1000000000"
  shows "sint (q * c) = sint q * sint c"
proof -
  have "sint q * sint c \<le> 1000 * 1000000000"
    using assms by (intro mult_mono) auto
  then have hi: "sint q * sint c < 2 ^ 63" by simp
  have lo: "0 \<le> sint q * sint c" using assms by simp
  have "sint (q * c) = signed_take_bit 63 (sint q * sint c)"
    by (simp add: sint_word_ariths)
  also have "\<dots> = sint q * sint c"
    using lo hi by (intro signed_take_bit_int_eq_self) auto
  finally show ?thesis .
qed

lemma freqToDuration_below_60:
  assumes "0 <s freq" "freq <s 60"
  shows "\<exists>r. freqToDuration dflt freq = Inr r \<and> sint r = (60 div sint freq) * 1000000000"
proof -
  have p: "0 < sint freq" and lt: "sint freq < 60"
    using assms by (simp_all add: word_sless_alt)
  obtain q where q: "int64_div 60 freq = Inr q" "sint q = 60 div sint freq"
    using int64_div_pos [of 60 freq] p by auto
  have q0: "0 \<le> sint q" using q p by (simp add: pos_imp_zdiv_nonneg_iff)
  have "60 div sint freq \<le> 60 div 1"
    using p by (intro zdiv_mono2) auto
  then have "sint q \<le> 60" using q by simp
  with q0 have "sint (q * Second) = sint q * 1000000000"
    using sint_mult_small [of q Second] by (simp add: Second_def)
  then show ?thesis using assms q by (simp add: freqToDuration_def)
qed

lemma freqToDuration_default_high:
  assumes "30060 \<le>s freq"
  shows "freqToDuration dflt freq = Inr dflt"
proof -
  have ge: "30060 \<le> sint freq" using assms by (simp add: word_sle_eq)
  then have p: "0 <s freq" and n60: "\<not> freq <s 60" by (simp_all add: word_sless_alt)
  obtain d where d: "int64_div freq 60 = Inr d" "sint d = sint freq div 60"
    using int64_div_pos [of freq 60] ge by auto
  have d501: "501 \<le> sint d" using d ge by simp
  obtain m where m: "int64_div 1000 d = Inr m" "sint m = 1000 div sint d"
    using int64_div_pos [of 1000 d] d501 by auto
  have "1000 div sint d \<le> 1000 div 501"
    using d501 by (intro zdiv_mono2) auto
  then have "sint m \<le> 1" using m by simp
  then have "\<not> 1 <s m" by (simp add: word_sless_alt)
  then show ?thesis using p n60 d m by (simp add: freqToDuration_def)
qed

lemma freqToDuration_default_nonpos:
  assumes "freq \<le>s 0"
  shows "freqToDuration dflt freq = Inr dflt"
  using assms by (simp add: freqToDuration_def word_sless_alt word_sle_eq)

lemma freqToDuration_returns: "\<exists>r. freqToDuration dflt freq = Inr r"
proof (cases "0 <s freq")
  case False
  then show ?thesis by (simp add: freqToDuration_def)
next
  case True
  then have p: "0 < sint freq" by (simp add: word_sless_alt)
  show ?thesis
  proof (cases "freq <s 60")
    case True
    with \<open>0 <s freq\<close> freqToDuration_below_60 show ?thesis by blast
  next
    case False
    then have ge: "60 \<le> sint freq" by (simp add: word_sless_alt)
    obtain d where d: "int64_div freq 60 = Inr d" "sint d = sint freq div 60"
      using int64_div_pos [of freq 60] p by auto
    have "1 \<le> sint d" using d ge by simp
    then obtain m where m: "int64_div 1000 d = Inr m"
      using int64_div_pos [of 1000 d] by auto
    show ?thesis using \<open>0 <s freq\<close> False d m by (simp add: freqToDuration_def)
  qed
qed

text \<open>
  Claim C4. A positive frequency below 60 gives a delay of \<open>60 / freq\<close> whole seconds
  (truncating division; the result is read in nanoseconds and does not wrap). At 30 the
  delay is 2 seconds, at 120 it is 500 milliseconds, and at 0 it is the engine's default.
\<close>

theorem freqToDuration_rate_translation:
  "(0 <s freq \<and> freq <s 60 \<longrightarrow>
      (\<exists>r. freqToDuration dflt freq = Inr r \<and> sint r = (60 div sint freq) * sint Second))
   \<and> freqToDuration dflt 30 = Inr (2 * Second)
   \<and> freqToDuration dflt 120 = Inr (500 * Millisecond)
   \<and> freqToDuration dflt 0 = Inr dflt"
proof -
  have "sint Second = 1000000000" by (simp add: Second_def)
  then have small: "0 <s freq \<and> freq <s 60 \<longrightarrow>
      (\<exists>r. freqToDuration dflt freq = Inr r \<and> sint r = (60 div sint freq) * sint Second)"
    using freqToDuration_below_60 [of freq dflt] by simp
  have fixed: "freqToDuration dflt 30 = Inr (2 * Second)"
    "freqToDuration dflt 120 = Inr (500 * Millisecond)"
    "freqToDuration dflt 0 = Inr dflt"
    by (simp_all add: freqToDuration_def int64_div_def signed_divide_int_def word_sless_alt)
  from small fixed show ?thesis by blast
qed

theorem freqToDuration_rate_translation_witness:
  "0 <s (7 :: int64) \<and> (7 :: int64) <s 60
   \<and> (\<exists>r. freqToDuration 1 7 = Inr r \<and> sint r = 8000000000)"
  using freqToDuration_rate_translation [of 7 1]
  by (simp add: word_sless_alt Second_def)

text \<open>
  Claim C9. \<^verbatim>\<open>freqToDuration\<close> returns on every 64-bit input (no division panics), and
  it returns the engine's default for every non-positive frequency and for every frequency
  of 30060 or more. The bound is sharp: 30059 still gives 2 milliseconds.
\<close>

theorem freqToDuration_total_and_default:
  "(\<exists>r. freqToDuration dflt freq = Inr r)
   \<and> (freq \<le>s 0 \<or> 30060 \<le>s freq \<longrightarrow> freqToDuration dflt freq = Inr dflt)
   \<and> freqToDuration dflt 30059 = Inr (2 * Millisecond)"
proof -
  have sharp: "freqToDuration dflt 30059 = Inr (2 * Millisecond)"
    by (simp add: freqToDuration_def int64_div_def signed_divide_int_def word_sless_alt)
  show ?thesis
    using freqToDuration_returns [of dflt freq] freqToDuration_default_nonpos [of freq dflt]
      freqToDuration_default_high [of freq dflt] sharp
    by blast
qed

theorem freqToDuration_total_and_default_witness:
  "30060 \<le>s (30060 :: int64) \<and> freqToDuration 5 30060 = Inr 5
   \<and> (-3 :: int64) \<le>s 0 \<and> freqToDuration 5 (-3) = Inr 5"
  using freqToDuration_total_and_default [of 5 30060]
    freqToDuration_total_and_default [of 5 "-3"]
  by (simp add: word_sle_eq)

subsection \<open>Statistics\<close>

lemma updateData_Name:
  "map_option asnData.Name (snd (updateData req tg as) a) =
     (case as a of
        Some d \<Rightarrow> Some (asnData.Name d)
      | None \<Rightarrow> if ASN req = a then Some (ISP req) else None)"
  by (auto simp: updateData_def Let_def split: option.splits)

lemma output_loop_Name:
  "map_option asnData.Name (asns (fst (output_loop params evs (st, w))) a) =
     (case asns st a of
        Some d \<Rightarrow> Some (asnData.Name d)
      | None \<Rightarrow> map_option ISP (find (\<lambda>e. ASN e = a) evs))"
proof (induction evs arbitrary: st w)
  case Nil
  then show ?case by (simp split: option.splits)
next
  case (Cons e evs)
  obtain st' w' where r: "receive_result params e (st, w) = (st', w')"
    by (cases "receive_result params e (st, w)")
  then have a': "asns st' = snd (updateData e (tags st) (asns st))"
    by (auto simp: receive_result_def Let_def)
  have "map_option asnData.Name (asns st' a) =
     (case asns st a of Some d \<Rightarrow> Some (asnData.Name d)
      | None \<Rightarrow> if ASN e = a then Some (ISP e) else None)"
    unfolding a' by (rule updateData_Name)
  then show ?case using Cons.IH [of st' w'] r
    by (auto split: option.splits)
qed

text \<open>
  Claim C5. When \<open>e\<close> is the first of the events \<open>evs\<close> with ASN \<open>a\<close>, the registry
  built from \<open>evs\<close> holds the ISP name of \<open>e\<close> for \<open>a\<close>, whatever names the later
  events carry; and an update never changes the name of an ASN that is already registered.
\<close>

theorem asn_name_first_seen:
  "(find (\<lambda>e. ASN e = a) evs = Some e \<longrightarrow>
      map_option asnData.Name (asns (fst (output_loop params evs (initial_state, w))) a)
        = Some (ISP e))
   \<and> (asns0 a = Some d \<longrightarrow>
      map_option asnData.Name (snd (updateData req tags0 asns0) a) = Some (asnData.Name d))"
proof -
  have "asns initial_state a = None"
    by (simp add: initial_state_def)
  then have first: "find (\<lambda>e. ASN e = a) evs = Some e \<longrightarrow>
      map_option asnData.Name (asns (fst (output_loop params evs (initial_state, w))) a)
        = Some (ISP e)"
    by (simp add: output_loop_Name)
  have kept: "asns0 a = Some d \<longrightarrow>
      map_option asnData.Name (snd (updateData req tags0 asns0) a) = Some (asnData.Name d)"
    by (simp add: updateData_Name)
  from first kept show ?thesis by blast
qed

theorem asn_name_first_seen_witness:
  "find (\<lambda>e. ASN e = 100) [ev1, ev2, ev3] = Some ev1
   \<and> map_option asnData.Name
        (asns (fst (output_loop quiet [ev1, ev2, ev3] (initial_state, empty_world))) 100)
      = Some ''First ISP''
   \<and> [100 \<mapsto> \<lparr>asnData.Name = ''First ISP'', Netblocks = Map.empty\<rparr>] (100 :: int)
      = Some \<lparr>asnData.Name = ''First ISP'', Netblocks = Map.empty\<rparr>
   \<and> map_option asnData.Name
        (snd (updateData ev2 Map.empty
           [100 \<mapsto> \<lparr>asnData.Name = ''First ISP'', Netblocks = Map.empty\<rparr>]) 100)
      = Some ''First ISP''"
  using asn_name_first_seen [of 100 "[ev1, ev2, ev3]" ev1 quiet empty_world
      "[100 \<mapsto> \<lparr>asnData.Name = ''First ISP'', Netblocks = Map.empty\<rparr>]"
      "\<lparr>asnData.Name = ''First ISP'', Netblocks = Map.empty\<rparr>" ev2 Map.empty]
  by (simp add: ev1_def)

subsection \<open>The output line\<close>






subsection \<open>The loop and the output file\<close>

lemma output_loop_effects:
  "allLines (fst (output_loop params evs (st, w)))
     = allLines st @ concat (map (format_line params) evs)
   \<and> stdout (snd (output_loop params evs (st, w)))
     = stdout w @ concat (map (format_line params) evs)
   \<and> files (snd (output_loop params evs (st, w))) = files w
   \<and> writes (snd (output_loop params evs (st, w))) = writes w
   \<and> unwritable (snd (output_loop params evs (st, w))) = unwritable w
   \<and> total (fst (output_loop params evs (st, w))) = total st + int (length evs)"
proof (induction evs arbitrary: st w)
  case Nil
  then show ?case by simp
next
  case (Cons e evs)
  show ?case
    using Cons.IH [of "fst (receive_result params e (st, w))"
        "snd (receive_result params e (st, w))"]
    by (simp add: receive_result_def Let_def)
qed

text \<open>
  Claim C3. With an output path, the consumer calls \<^verbatim>\<open>WriteFile\<close> once, after the
  loop, with exactly the lines of the events it processed, concatenated in the order of
  their arrival; when the path can be written, that text becomes the content of the file,
  whatever the file held before. The loop itself, over any events, writes no file.
\<close>

theorem output_file_content:
  "(FileOut params \<noteq> [] \<longrightarrow>
      writes (fst (manageOutput rt params received w))
        = writes w @ [(FileOut params, concat (map (format_line params) received))])
   \<and> (FileOut params \<noteq> [] \<and> FileOut params \<notin> set (unwritable w) \<longrightarrow>
      files (fst (manageOutput rt params received w))
        = (files w)(FileOut params \<mapsto> concat (map (format_line params) received)))
   \<and> files (snd (output_loop params evs (initial_state, w))) = files w
   \<and> writes (snd (output_loop params evs (initial_state, w))) = writes w"
  by (simp add: manageOutput_def output_finish_def Let_def WriteFile_def output_loop_effects
      initial_state_def)

theorem output_file_content_witness:
  "FileOut to_file \<noteq> [] \<and> FileOut to_file \<notin> set (unwritable empty_world)
   \<and> files (fst (manageOutput no_range to_file [ev1, ev3] empty_world)) ''out.txt''
      = Some (''[Bing]        www.example.com,10.0.0.1\<newline>''
              @ ''[Forward DNS] ns.example.com,172.16.0.9\<newline>'')
   \<and> length (writes (fst (manageOutput no_range to_file [ev1, ev3] empty_world))) = 1"
proof -
  have n: "RuneCountInString ''[Bing] '' = 7" "RuneCountInString ''[Forward DNS] '' = 14"
    by (simp_all add: RuneCountInString_def rune_width_def)
  have p: "pad_right 14 ''[Bing] '' = ''[Bing]        ''"
    "pad_right 14 ''[Forward DNS] '' = ''[Forward DNS] ''"
    unfolding pad_right_def n by (simp_all add: numeral_eq_Suc)
  have l: "format_line to_file ev1 = ''[Bing]        www.example.com,10.0.0.1\<newline>''"
    "format_line to_file ev3 = ''[Forward DNS] ns.example.com,172.16.0.9\<newline>''"
    using p by (simp_all add: format_line_def to_file_def ev1_def ev3_def)
  show ?thesis
    using output_file_content [of to_file no_range "[ev1, ev3]" empty_world "[]"] l
    by (simp add: to_file_def empty_world_def)
qed

text \<open>
  Claim C6, as amended. When the output file cannot be written, the consumer still
  completes: it has printed the lines and, when asked for, the summary, and it closes
  \<^verbatim>\<open>Done\<close>.
\<close>

theorem write_failure_completes:
  "FileOut params \<noteq> [] \<and> FileOut params \<in> set (unwritable w) \<longrightarrow>
     fst (WriteFile (FileOut params) data w) \<noteq> None
     \<and> snd (manageOutput rt params received w)
     \<and> stdout (fst (manageOutput rt params received w))
        = stdout w @ concat (map (format_line params) received)
          @ (if Verbose params
             then printSummary (total (fst (output_loop params received (initial_state, w))))
                    (range_tags rt (tags (fst (output_loop params received (initial_state, w)))))
                    (range_asns rt (asns (fst (output_loop params received (initial_state, w)))))
             else [])"
  by (simp add: manageOutput_def output_finish_def Let_def WriteFile_def output_loop_effects
      initial_state_def)

theorem write_failure_completes_witness:
  "FileOut to_file \<noteq> [] \<and> FileOut to_file \<in> set (unwritable locked_world)
   \<and> fst (WriteFile (FileOut to_file) [] locked_world) \<noteq> None
   \<and> snd (manageOutput no_range to_file [] locked_world)"
  using write_failure_completes [of to_file locked_world "[]" no_range "[]"]
  by (simp add: to_file_def locked_world_def)

text \<open>
  Claim C6, as stated, fails: the write of \<^verbatim>\<open>out.txt\<close> returns an error, and the run
  prints nothing at all; the error goes nowhere.
\<close>

theorem write_failure_not_reported:
  "fst (WriteFile (FileOut to_file) [] locked_world) \<noteq> None
   \<and> stdout (fst (manageOutput no_range to_file [] locked_world)) = []
   \<and> manageOutput no_range to_file [] locked_world
      = (locked_world\<lparr>writes := [(''out.txt'', [])]\<rparr>, True)"
  by (simp add: manageOutput_def output_finish_def Let_def WriteFile_def to_file_def
      locked_world_def initial_state_def)

text \<open>
  Claim C7. With two tags in the tally, \<^verbatim>\<open>printSummary\<close> prints the separator after
  the last entry as well, in either order of the entries; with one tag it prints none.
  The separator line is 80 dashes.
\<close>

theorem printSummary_trailing_separator:
  "printSummary 3 [(''A'', 2), (''B'', 1)] []
     = ''\<newline>3 names discovered - A: 2, B: 1, \<newline>'' @ replicate 80 CHR ''-'' @ ''\<newline>''
   \<and> printSummary 3 [(''B'', 1), (''A'', 2)] []
     = ''\<newline>3 names discovered - B: 1, A: 2, \<newline>'' @ replicate 80 CHR ''-'' @ ''\<newline>''
   \<and> printSummary 3 [(''A'', 3)] []
     = ''\<newline>3 names discovered - A: 3\<newline>'' @ replicate 80 CHR ''-'' @ ''\<newline>''"
  by (simp add: printSummary_def Itoa_def digits.simps numeral_eq_Suc)

subsection \<open>The loaders\<close>




subsection \<open>The goroutines\<close>

lemma fin_inv_start: "fin_inv w (start evs w)"
  by (simp add: fin_inv_def start_def main_fired_def sig_fired_def)

lemma receive_result_writes: "writes (snd (receive_result params e (st, w))) = writes w"
  by (simp add: receive_result_def Let_def)

lemma output_finish_writes:
  "length (writes (fst (output_finish rt params (st, w)))) \<le> Suc (length (writes w))"
  by (simp add: output_finish_def Let_def WriteFile_def)

lemma output_finish_done: "snd (output_finish rt params sw) = True"
  by (simp add: output_finish_def Let_def)

lemma fin_inv_step:
  assumes "fin_inv w s" "step rt params a s = Some s'"
  shows "fin_inv w s'"
proof (cases a)
  case Finalize
  then show ?thesis
    using assms output_finish_writes [of rt params "out_state s" "env s"]
    by (auto simp: fin_inv_def main_fired_def sig_fired_def Let_def output_finish_done
        split: if_splits)
next
  case RecvResult
  then show ?thesis
    using assms
    by (auto simp: fin_inv_def main_fired_def sig_fired_def Let_def receive_result_writes
        split: if_splits list.splits)
qed (use assms in \<open>auto simp: fin_inv_def main_fired_def sig_fired_def
      split: if_splits list.splits\<close>)

lemma fin_inv_run:
  "fin_inv w s \<Longrightarrow> run rt params acts s = Some s' \<Longrightarrow> fin_inv w s'"
proof (induction acts arbitrary: s)
  case Nil
  then show ?case by simp
next
  case (Cons a acts)
  then show ?case
    by (auto split: option.splits dest: fin_inv_step)
qed

lemma after_done_frozen:
  assumes "Done s" "fin_inv w s" "step rt params a s = Some s'"
  shows "out_state s' = out_state s \<and> env s' = env s \<and> out_at s' = out_at s"
  using assms
  by (cases a) (auto simp: fin_inv_def split: if_splits list.splits)

text \<open>
  Claim C1. One request is queued on \<^verbatim>\<open>Results\<close>, the engine returns and \<^verbatim>\<open>main\<close>
  sends on \<^verbatim>\<open>Finish\<close>: both cases of the select statement can proceed. When it takes
  the case of \<^verbatim>\<open>Finish\<close>, the consumer leaves the loop and the program ends with a total
  of 0 and an empty tally, the request still on the channel and nothing printed.
\<close>

theorem queued_result_dropped:
  "\<exists>s. run rt quiet [EngineSend, EngineReturn, RecvFinishMain, Finalize, MainDone]
         (start [e] w) = Some s
     \<and> exited s \<and> Done s
     \<and> total (out_state s) = 0 \<and> tags (out_state s) = Map.empty
     \<and> Results s = [e] \<and> stdout (env s) = stdout w"
  by (simp add: start_def quiet_def output_finish_def initial_state_def)

text \<open>
  Claim C2. In every state that a run reaches: at most one of the two sends on
  \<^verbatim>\<open>Finish\<close> (that of \<^verbatim>\<open>main\<close>, that of \<^verbatim>\<open>catchSignals\<close>) has completed; the output
  file has been written at most once; once the consumer has left its loop, no send on
  \<^verbatim>\<open>Finish\<close> is received any more, so a second trigger only brings its goroutine to its
  send, where it stays; and once \<^verbatim>\<open>Done\<close> is closed, no step changes the statistics,
  the printed text or the files.
\<close>

theorem finish_fires_once:
  "run rt params acts (start evs w) = Some s \<longrightarrow>
     \<not> (main_fired s \<and> sig_fired s)
     \<and> length (writes (env s)) \<le> Suc (length (writes w))
     \<and> (out_at s \<noteq> Select \<longrightarrow>
          step rt params RecvFinishMain s = None \<and> step rt params RecvFinishSig s = None
          \<and> (step rt params Interrupt s = None
              \<or> step rt params Interrupt s = Some (s\<lparr>sig_at := SigSendFinish\<rparr>))
          \<and> (step rt params EngineReturn s = None
              \<or> step rt params EngineReturn s = Some (s\<lparr>main_at := SendFinish\<rparr>)))
     \<and> (Done s \<and> step rt params a s = Some s' \<longrightarrow>
          out_state s' = out_state s \<and> env s' = env s \<and> out_at s' = out_at s)"
proof
  assume r: "run rt params acts (start evs w) = Some s"
  have inv: "fin_inv w s"
    using fin_inv_run [OF fin_inv_start r] .
  have once: "\<not> (main_fired s \<and> sig_fired s)"
    using inv by (auto simp: fin_inv_def split: if_splits)
  have wr: "length (writes (env s)) \<le> Suc (length (writes w))"
    using inv by (auto simp: fin_inv_def split: if_splits)
  have blocked: "out_at s \<noteq> Select \<longrightarrow>
          step rt params RecvFinishMain s = None \<and> step rt params RecvFinishSig s = None
          \<and> (step rt params Interrupt s = None
              \<or> step rt params Interrupt s = Some (s\<lparr>sig_at := SigSendFinish\<rparr>))
          \<and> (step rt params EngineReturn s = None
              \<or> step rt params EngineReturn s = Some (s\<lparr>main_at := SendFinish\<rparr>))"
    by simp
  have frozen: "Done s \<and> step rt params a s = Some s' \<longrightarrow>
          out_state s' = out_state s \<and> env s' = env s \<and> out_at s' = out_at s"
    using after_done_frozen [OF _ inv] by blast
  from once wr blocked frozen
  show "\<not> (main_fired s \<and> sig_fired s)
     \<and> length (writes (env s)) \<le> Suc (length (writes w))
     \<and> (out_at s \<noteq> Select \<longrightarrow>
          step rt params RecvFinishMain s = None \<and> step rt params RecvFinishSig s = None
          \<and> (step rt params Interrupt s = None
              \<or> step rt params Interrupt s = Some (s\<lparr>sig_at := SigSendFinish\<rparr>))
          \<and> (step rt params EngineReturn s = None
              \<or> step rt params EngineReturn s = Some (s\<lparr>main_at := SendFinish\<rparr>)))
     \<and> (Done s \<and> step rt params a s = Some s' \<longrightarrow>
          out_state s' = out_state s \<and> env s' = env s \<and> out_at s' = out_at s)"
    by blast
qed

text \<open>
  The interrupt arrives first and its send is received; the engine then returns and
  \<^verbatim>\<open>main\<close> reaches its own send, which nobody receives.
\<close>

theorem finish_fires_once_witness:
  "\<exists>s. run no_range to_file
          [EngineSend, RecvResult, Interrupt, RecvFinishSig, EngineReturn, Finalize]
          (start [ev1] empty_world) = Some s
     \<and> sig_fired s \<and> \<not> main_fired s \<and> main_at s = SendFinish \<and> Done s
     \<and> step no_range to_file RecvFinishMain s = None
     \<and> length (writes (env s)) = 1"
proof -
  obtain s where r: "run no_range to_file
          [EngineSend, RecvResult, Interrupt, RecvFinishSig, EngineReturn, Finalize]
          (start [ev1] empty_world) = Some s"
    and p: "sig_fired s" "main_at s = SendFinish" "Done s" "out_at s = OutReturned"
      "length (writes (env s)) = 1"
    by (simp add: start_def to_file_def empty_world_def output_finish_def WriteFile_def
        receive_result_def sig_fired_def Let_def)
  have "\<not> (main_fired s \<and> sig_fired s)
     \<and> step no_range to_file RecvFinishMain s = None"
    using finish_fires_once [of no_range to_file
        "[EngineSend, RecvResult, Interrupt, RecvFinishSig, EngineReturn, Finalize]"
        "[ev1]" empty_world s] r p
    by simp
  then show ?thesis using r p by blast
qed

end
